theory Spec2Isabelle
  imports Main
begin

section \<open>The configuration loader of internal/config/config.go\<close>

text \<open>
  The package has one function, \<open>MustLoad\<close>, and two structs. \<open>MustLoad\<close> reads the
  process environment, the command line and the file system, and either returns a
  populated \<open>Config\<close> or stops the process, through \<open>log.Fatal\<close> or inside
  \<open>flag.Parse()\<close>. The model makes
  everything the function reads an explicit argument (a record \<open>world\<close>) and
  everything it does a value (\<open>outcome\<close>).
\<close>

subsection \<open>Data: the structs\<close>

text \<open>\<open>type HttpServer struct { Addr string }\<close>\<close>

record HttpServer =
  Addr :: string

text \<open>
  \<open>type Config struct { Env string; StoragePath string; HttpServer }\<close>. The field tags
  of the source are: \<open>Env\<close> has \<open>yaml:"env" env:"ENV" env-required:"true"\<close>,
  \<open>StoragePath\<close> has \<open>yaml:"storage_path" env-required:"true"\<close>, the embedded
  \<open>HttpServer\<close> has \<open>yaml:"http_server"\<close> and its \<open>Addr\<close> has \<open>yaml:"addr"\<close>.
\<close>

record Config =
  Env :: string
  StoragePath :: string
  HttpServer :: HttpServer

subsection \<open>What the loader reads\<close>

text \<open>
  The error of \<open>os.Stat\<close>. \<open>os.IsNotExist\<close> is true of the errors that report a
  missing file and false of every other error and of \<open>nil\<close>.
\<close>

datatype os_error = ErrNotExist | ErrPermission | ErrOther string

definition IsNotExist :: "os_error option \<Rightarrow> bool" where
  "IsNotExist err = (err = Some ErrNotExist)"

text \<open>
  What \<open>flag.Parse()\<close> (line 38) does with the command line of the process. It
  parses \<open>flag.CommandLine\<close>, whose error handling is \<open>flag.ExitOnError\<close>: on a
  command line it accepts it returns, and the flag \<open>-config\<close> then holds a value
  (\<open>Parsed q\<close>; \<open>q\<close> is the default, the empty string, when the command line does
  not give the flag); on any other command line it writes its own error or usage text
  and ends the process itself, with exit code 2 for a rejected command line and 0 for
  \<open>-h\<close> or \<open>-help\<close> (\<open>Stopped code\<close>). Line 40 runs only in the first case.
\<close>

datatype flag_result = Parsed string | Stopped nat

text \<open>
  The state of the process when \<open>MustLoad\<close> runs: the environment variables (a
  variable that is not set is \<open>None\<close>), what \<open>flag.Parse()\<close> does with the command
  line, the error of \<open>os.Stat\<close> at each path (\<open>None\<close> is \<open>nil\<close>), and the state of
  the file at each path, of a type \<open>'f\<close> the reader of the file interprets.
\<close>

record 'f world =
  environ :: "string \<Rightarrow> string option"
  flag_parse :: flag_result
  Stat :: "string \<Rightarrow> os_error option"
  file_at :: "string \<Rightarrow> 'f"

text \<open>\<open>os.Getenv\<close>: the value of the variable, the empty string when it is not set.\<close>

definition Getenv :: "'f world \<Rightarrow> string \<Rightarrow> string" where
  "Getenv w key = (case environ w key of None \<Rightarrow> [] | Some v \<Rightarrow> v)"

subsection \<open>What the loader does\<close>

text \<open>
  \<open>MustLoad\<close> either returns the pointer to the populated struct or ends the process.
  \<open>log.Fatal\<close> and \<open>log.Fatalf\<close> write the message to the standard logger, whose
  output is standard error, and call \<open>os.Exit(1)\<close>: \<open>Exit code msg\<close> is a process
  that ended with that exit code after writing \<open>msg\<close> to standard error. The
  logger's date and time before the message and the newline after it are left out.
  \<open>FlagExit code\<close> is a process that \<open>flag.Parse()\<close> ended with that exit code;
  the error and usage text the \<open>flag\<close> package wrote is not part of the model.
\<close>

datatype outcome = Returned Config | Exit nat string | FlagExit nat

definition log_Fatal :: "string \<Rightarrow> outcome" where
  "log_Fatal msg = Exit 1 msg"

text \<open>
  \<open>cleanenv.ReadConfig(cfgPath, &cfg)\<close> belongs to a library outside the repository.
  \<open>MustLoad\<close> is modelled over any reader: a function of the environment, the path and
  the state of the file at that path that yields the text of the error it returns
  (\<open>err.Error()\<close>) or the struct it populated.
\<close>

type_synonym 'f reader = "(string \<Rightarrow> string option) \<Rightarrow> string \<Rightarrow> 'f \<Rightarrow> string + Config"

text \<open>
  Lines 29 to 45 of the source, the resolution of \<open>cfgPath\<close>: the value of
  \<open>CONFIG_PATH\<close>; when that is empty, \<open>flag.Parse()\<close> runs, and either ends the
  process or returns, and then the value of the flag is taken; when that is empty too,
  \<open>log.Fatal\<close>. \<open>Inl\<close> holds the outcome of a run that ends here, \<open>Inr\<close> the path.
  With \<open>CONFIG_PATH\<close> not empty, \<open>flag.Parse()\<close> is not called.
\<close>

definition cfgPath :: "'f world \<Rightarrow> outcome + string" where
  "cfgPath w =
     (let p = Getenv w ''CONFIG_PATH'' in
      if p = [] then
        (case flag_parse w of
           Stopped code \<Rightarrow> Inl (FlagExit code)
         | Parsed q \<Rightarrow>
             if q = [] then
               Inl (log_Fatal ''Config path is not set. Use CONFIG_PATH env or -config flag'')
             else Inr q)
      else Inr p)"

text \<open>
  Lines 47 to 64 of the source, run at the resolved path: the existence check, the call
  of the reader on a zero \<open>Config\<close>, and the return.
\<close>

definition loadFile :: "'f reader \<Rightarrow> 'f world \<Rightarrow> string \<Rightarrow> outcome" where
  "loadFile rc w p =
     (if IsNotExist (Stat w p) then log_Fatal (''Config file does not exist: '' @ p)
      else (case rc (environ w) p (file_at w p) of
              Inl err \<Rightarrow> log_Fatal (''Cannot read config file: '' @ err)
            | Inr cfg \<Rightarrow> Returned cfg))"

definition MustLoad_with :: "'f reader \<Rightarrow> 'f world \<Rightarrow> outcome" where
  "MustLoad_with rc w = (case cfgPath w of Inl stopped \<Rightarrow> stopped | Inr p \<Rightarrow> loadFile rc w p)"

subsection \<open>The reader, from the specification\<close>

text \<open>
  The source cites \<open>cleanenv.ReadConfig\<close> by name only, so what it does with the file
  and the environment is taken from the specification (section 4.1, "Parse and
  populate" and "Validation") and from the field tags in the source.
\<close>

text \<open>
  Modelled from the spec: the content of a YAML file as the parser of
  \<open>cleanenv.ReadConfig\<close> (absent from the source) sees it, the keys \<open>env\<close>,
  \<open>storage_path\<close> and the nested \<open>http_server.addr\<close>, each present with a string
  value or absent.
\<close>

record yaml_doc =
  yaml_env :: "string option"
  yaml_storage_path :: "string option"
  yaml_addr :: "string option"

text \<open>
  Modelled from the spec: the state of a file for \<open>cleanenv.ReadConfig\<close> (absent from
  the source): it cannot be opened or read (with the error's text), it is not well-formed
  YAML or a value has the wrong type (with the parse error's text), or it is a document.
\<close>

datatype file_state = Unreadable string | Malformed string | Document yaml_doc

text \<open>
  Modelled from the spec: "read the file as YAML into the Settings structure, mapping
  keys env, storage_path, and nested http_server.addr" (the parser of
  \<open>cleanenv.ReadConfig\<close>, absent from the source). The struct starts as the zero
  \<open>Config\<close> of line 53, so a key the file does not give leaves the empty string.
\<close>

definition populate :: "yaml_doc \<Rightarrow> Config" where
  "populate d =
     \<lparr>Env = (case yaml_env d of None \<Rightarrow> [] | Some v \<Rightarrow> v),
      StoragePath = (case yaml_storage_path d of None \<Rightarrow> [] | Some v \<Rightarrow> v),
      HttpServer = \<lparr>Addr = (case yaml_addr d of None \<Rightarrow> [] | Some v \<Rightarrow> v)\<rparr>\<rparr>"

text \<open>
  Modelled from the spec: "allow any field tagged as overridable-by-environment to be
  replaced by the value of a correspondingly named environment variable, if set" (the
  override step of \<open>cleanenv.ReadConfig\<close>, absent from the source). The one field with
  an \<open>env\<close> tag in the source is \<open>Env\<close>, tagged \<open>env:"ENV"\<close>.
\<close>

definition override_env :: "(string \<Rightarrow> string option) \<Rightarrow> Config \<Rightarrow> Config" where
  "override_env e c = (case e ''ENV'' of None \<Rightarrow> c | Some v \<Rightarrow> c\<lparr>Env := v\<rparr>)"

text \<open>
  Modelled from the spec: "a diagnostic identifying the missing field" (the error text
  of \<open>cleanenv.ReadConfig\<close>, absent from the source). The library's wording is not in
  the source; the model keeps the name of the field after a fixed phrase.
\<close>

definition required_missing :: "string \<Rightarrow> string" where
  "required_missing field = ''required field missing: '' @ field"

text \<open>
  Modelled from the spec: "fields marked required (environment, storagePath) must be
  non-empty after YAML parsing and environment override; if empty, terminate with a
  diagnostic identifying the missing field" (the validation of \<open>cleanenv.ReadConfig\<close>,
  absent from the source). The fields tagged \<open>env-required:"true"\<close> in the source are
  \<open>Env\<close> and \<open>StoragePath\<close>, checked in the order of declaration.
\<close>

definition validate :: "Config \<Rightarrow> string + Config" where
  "validate c =
     (if Env c = [] then Inl (required_missing ''Env'')
      else if StoragePath c = [] then Inl (required_missing ''StoragePath'')
      else Inr c)"

text \<open>
  Modelled from the spec: \<open>cleanenv.ReadConfig\<close> (absent from the source): parse, then
  override, then validate. A file that cannot be read and a parse failure are returned
  as errors that carry the underlying text.
\<close>

definition ReadConfig :: "file_state reader" where
  "ReadConfig e p f =
     (case f of
        Unreadable msg \<Rightarrow> Inl msg
      | Malformed msg \<Rightarrow> Inl msg
      | Document d \<Rightarrow> validate (override_env e (populate d)))"

text \<open>\<open>MustLoad\<close> as the source calls it, with that reader.\<close>

definition MustLoad :: "file_state world \<Rightarrow> outcome" where
  "MustLoad w = MustLoad_with ReadConfig w"

subsection \<open>Example processes\<close>

text \<open>
  A reader whose file state is the result it yields, and processes built around one
  configuration file, used to run the theorems below on concrete inputs.
\<close>

definition read_as_stored :: "(string + Config) reader" where
  "read_as_stored e p f = f"

definition cfg_dev :: Config where
  "cfg_dev = \<lparr>Env = ''dev'', StoragePath = ''/var/lib/app'', HttpServer = \<lparr>Addr = ''localhost:8082''\<rparr>\<rparr>"

text \<open>
  The process with environment \<open>e\<close> and a command line that gives the flag the
  value \<open>fl\<close>, on a disk where \<open>os.Stat\<close>
  gives \<open>st\<close> at \<open>/etc/app/local.yaml\<close> and reports every other path missing, and
  where reading that file gives \<open>r\<close>.
\<close>

definition proc :: "(string \<Rightarrow> string option) \<Rightarrow> string \<Rightarrow> os_error option \<Rightarrow> string + Config
    \<Rightarrow> (string + Config) world" where
  "proc e fl st r =
     \<lparr>environ = e, flag_parse = Parsed fl,
      Stat = (\<lambda>p. if p = ''/etc/app/local.yaml'' then st else Some ErrNotExist),
      file_at = (\<lambda>p. if p = ''/etc/app/local.yaml'' then r else Inl ''no such file'')\<rparr>"

text \<open>
  The process with environment \<open>e\<close> and a command line without the flag, on a
  disk where every path holds a file in state \<open>f\<close>.
\<close>

definition proc_yaml :: "(string \<Rightarrow> string option) \<Rightarrow> file_state \<Rightarrow> file_state world" where
  "proc_yaml e f = \<lparr>environ = e, flag_parse = Parsed [], Stat = (\<lambda>p. None), file_at = (\<lambda>p. f)\<rparr>"

definition doc_prod :: yaml_doc where
  "doc_prod = \<lparr>yaml_env = Some ''prod'', yaml_storage_path = Some ''/data'', yaml_addr = None\<rparr>"

section \<open>Properties of the loader\<close>

subsection \<open>Steps of \<open>MustLoad\<close>\<close>

lemma MustLoad_with_resolved: "cfgPath w = Inr p \<Longrightarrow> MustLoad_with rc w = loadFile rc w p"
  by (simp add: MustLoad_with_def)

lemma cfgPath_stopped:
  "cfgPath w = Inl out \<Longrightarrow>
     Getenv w ''CONFIG_PATH'' = [] \<and>
     (flag_parse w = Parsed [] \<and>
        out = Exit 1 ''Config path is not set. Use CONFIG_PATH env or -config flag'' \<or>
      (\<exists>code. flag_parse w = Stopped code \<and> out = FlagExit code))"
  by (auto simp: cfgPath_def log_Fatal_def Let_def split: if_splits flag_result.splits)

lemma cfgPath_no_path:
  "Getenv w ''CONFIG_PATH'' = [] \<Longrightarrow> flag_parse w = Parsed [] \<Longrightarrow>
     cfgPath w = Inl (Exit 1 ''Config path is not set. Use CONFIG_PATH env or -config flag'')"
  by (simp add: cfgPath_def log_Fatal_def)

lemma cfgPath_env_set:
  "Getenv w ''CONFIG_PATH'' \<noteq> [] \<Longrightarrow> cfgPath w = Inr (Getenv w ''CONFIG_PATH'')"
  by (simp add: cfgPath_def)

lemma Getenv_flag_parse: "Getenv (w\<lparr>flag_parse := fl\<rparr>) key = Getenv w key"
  by (simp add: Getenv_def)

lemma loadFile_flag_parse: "loadFile rc (w\<lparr>flag_parse := fl\<rparr>) p = loadFile rc w p"
  by (simp add: loadFile_def)

lemma loadFile_missing:
  "IsNotExist (Stat w p) \<Longrightarrow> loadFile rc w p = Exit 1 (''Config file does not exist: '' @ p)"
  by (simp add: loadFile_def log_Fatal_def)

lemma loadFile_present:
  "\<not> IsNotExist (Stat w p) \<Longrightarrow>
     loadFile rc w p =
       (case rc (environ w) p (file_at w p) of
          Inl err \<Rightarrow> Exit 1 (''Cannot read config file: '' @ err)
        | Inr cfg \<Rightarrow> Returned cfg)"
  by (simp add: loadFile_def log_Fatal_def split: sum.splits)

subsection \<open>Path resolution\<close>

text \<open>
  Claim C1. The path is resolved first match first. When \<open>CONFIG_PATH\<close> is not empty,
  its value is the path the file is loaded from, and the outcome is the same whatever
  the command line holds, also one that \<open>flag.Parse()\<close> would reject: the flag is not
  consulted. When \<open>CONFIG_PATH\<close> is empty or not set and the flag \<open>-config\<close> has a
  value that is not empty, the flag's value is the path. When both are empty, the
  process ends with the message "Config path is not set. Use CONFIG_PATH env or -config
  flag". This holds for every reader of the file.
\<close>

theorem MustLoad_path_resolution:
  "(Getenv w ''CONFIG_PATH'' \<noteq> [] \<longrightarrow>
      cfgPath w = Inr (Getenv w ''CONFIG_PATH'') \<and>
      MustLoad_with rc w = loadFile rc w (Getenv w ''CONFIG_PATH'') \<and>
      (\<forall>fl. MustLoad_with rc (w\<lparr>flag_parse := fl\<rparr>) = MustLoad_with rc w)) \<and>
   (Getenv w ''CONFIG_PATH'' = [] \<and> flag_parse w = Parsed q \<and> q \<noteq> [] \<longrightarrow>
      cfgPath w = Inr q \<and>
      MustLoad_with rc w = loadFile rc w q) \<and>
   (Getenv w ''CONFIG_PATH'' = [] \<and> flag_parse w = Parsed [] \<longrightarrow>
      MustLoad_with rc w =
        Exit 1 ''Config path is not set. Use CONFIG_PATH env or -config flag'')"
proof (intro conjI impI allI)
  assume set: "Getenv w ''CONFIG_PATH'' \<noteq> []"
  show p: "cfgPath w = Inr (Getenv w ''CONFIG_PATH'')"
    using set by (rule cfgPath_env_set)
  show "MustLoad_with rc w = loadFile rc w (Getenv w ''CONFIG_PATH'')"
    by (simp add: MustLoad_with_def p)
  fix fl
  have "cfgPath (w\<lparr>flag_parse := fl\<rparr>) = Inr (Getenv w ''CONFIG_PATH'')"
    using set cfgPath_env_set [of "w\<lparr>flag_parse := fl\<rparr>"] by (simp add: Getenv_flag_parse)
  then show "MustLoad_with rc (w\<lparr>flag_parse := fl\<rparr>) = MustLoad_with rc w"
    by (simp add: MustLoad_with_def p loadFile_flag_parse)
next
  assume unset: "Getenv w ''CONFIG_PATH'' = [] \<and> flag_parse w = Parsed q \<and> q \<noteq> []"
  then show p: "cfgPath w = Inr q"
    by (simp add: cfgPath_def)
  show "MustLoad_with rc w = loadFile rc w q"
    by (simp add: MustLoad_with_def p)
next
  assume "Getenv w ''CONFIG_PATH'' = [] \<and> flag_parse w = Parsed []"
  then show "MustLoad_with rc w =
      Exit 1 ''Config path is not set. Use CONFIG_PATH env or -config flag''"
    by (simp add: MustLoad_with_def cfgPath_no_path)
qed

text \<open>
  The three branches on concrete processes. In the first the flag names a file that
  does not exist, and the file named by \<open>CONFIG_PATH\<close> is the one loaded; it is
  loaded as well when the command line is one that \<open>flag.Parse()\<close> rejects.
\<close>

theorem MustLoad_path_resolution_witness:
  "Getenv (proc [''CONFIG_PATH'' \<mapsto> ''/etc/app/local.yaml''] ''/tmp/other.yaml'' None (Inr cfg_dev))
      ''CONFIG_PATH'' \<noteq> [] \<and>
   MustLoad_with read_as_stored
      (proc [''CONFIG_PATH'' \<mapsto> ''/etc/app/local.yaml''] ''/tmp/other.yaml'' None (Inr cfg_dev))
     = Returned cfg_dev \<and>
   MustLoad_with read_as_stored
      ((proc [''CONFIG_PATH'' \<mapsto> ''/etc/app/local.yaml''] ''/tmp/other.yaml'' None (Inr cfg_dev))
         \<lparr>flag_parse := Stopped 2\<rparr>)
     = Returned cfg_dev \<and>
   MustLoad_with read_as_stored (proc Map.empty ''/etc/app/local.yaml'' None (Inr cfg_dev))
     = Returned cfg_dev \<and>
   MustLoad_with read_as_stored (proc Map.empty [] None (Inr cfg_dev))
     = Exit 1 ''Config path is not set. Use CONFIG_PATH env or -config flag''"
proof -
  let ?w1 = "proc [''CONFIG_PATH'' \<mapsto> ''/etc/app/local.yaml''] ''/tmp/other.yaml'' None (Inr cfg_dev)"
  let ?w2 = "proc Map.empty ''/etc/app/local.yaml'' None (Inr cfg_dev)"
  let ?w3 = "proc Map.empty [] None (Inr cfg_dev)"
  have g1: "Getenv ?w1 ''CONFIG_PATH'' = ''/etc/app/local.yaml''"
    by (simp add: Getenv_def proc_def)
  have g2: "Getenv ?w2 ''CONFIG_PATH'' = [] \<and> flag_parse ?w2 = Parsed ''/etc/app/local.yaml''"
    by (simp add: Getenv_def proc_def)
  have g3: "Getenv ?w3 ''CONFIG_PATH'' = [] \<and> flag_parse ?w3 = Parsed []"
    by (simp add: Getenv_def proc_def)
  have l1: "loadFile read_as_stored ?w1 ''/etc/app/local.yaml'' = Returned cfg_dev"
    by (simp add: loadFile_def proc_def IsNotExist_def read_as_stored_def)
  have l2: "loadFile read_as_stored ?w2 ''/etc/app/local.yaml'' = Returned cfg_dev"
    by (simp add: loadFile_def proc_def IsNotExist_def read_as_stored_def)
  show ?thesis
    using MustLoad_path_resolution [of ?w1 read_as_stored]
      MustLoad_path_resolution [where w = ?w2 and rc = read_as_stored
        and q = "''/etc/app/local.yaml''"]
      MustLoad_path_resolution [where w = ?w3 and rc = read_as_stored]
    by (simp add: g1 g2 g3 l1 l2)
qed

subsection \<open>The existence check\<close>

text \<open>
  Claim C4. When \<open>os.Stat\<close> reports that the resolved path does not exist, the process
  ends with the message "Config file does not exist: " followed by that path.
\<close>

theorem MustLoad_missing_file:
  assumes "cfgPath w = Inr p" and "IsNotExist (Stat w p)"
  shows "MustLoad_with rc w = Exit 1 (''Config file does not exist: '' @ p)"
  using assms by (simp add: MustLoad_with_resolved loadFile_missing)

theorem MustLoad_missing_file_witness:
  "cfgPath (proc [''CONFIG_PATH'' \<mapsto> ''/srv/none.yaml''] [] None (Inr cfg_dev)) = Inr ''/srv/none.yaml'' \<and>
   IsNotExist (Stat (proc [''CONFIG_PATH'' \<mapsto> ''/srv/none.yaml''] [] None (Inr cfg_dev)) ''/srv/none.yaml'') \<and>
   MustLoad_with read_as_stored (proc [''CONFIG_PATH'' \<mapsto> ''/srv/none.yaml''] [] None (Inr cfg_dev))
     = Exit 1 ''Config file does not exist: /srv/none.yaml''"
proof -
  let ?w = "proc [''CONFIG_PATH'' \<mapsto> ''/srv/none.yaml''] [] None (Inr cfg_dev)"
  have p: "cfgPath ?w = Inr ''/srv/none.yaml''"
    by (simp add: cfgPath_def Getenv_def proc_def)
  have s: "IsNotExist (Stat ?w ''/srv/none.yaml'')"
    by (simp add: IsNotExist_def proc_def)
  show ?thesis
    using MustLoad_missing_file [OF p s, of read_as_stored] p s by simp
qed

subsection \<open>Fail fast\<close>



subsection \<open>The text of a read error\<close>

text \<open>
  Claim C6. A file that is malformed YAML or holds a value of the wrong type makes the
  reader return an error, whose text is the parse error's. Whenever the reader returns
  an error for the file at the resolved path, the process ends with the message "Cannot
  read config file: " followed by the whole text of that error.
\<close>

theorem MustLoad_reader_error:
  assumes "cfgPath w = Inr p" and "\<not> IsNotExist (Stat w p)"
    and "rc (environ w) p (file_at w p) = Inl err"
  shows "MustLoad_with rc w = Exit 1 (''Cannot read config file: '' @ err)"
  using assms by (simp add: MustLoad_with_resolved loadFile_present)

theorem MustLoad_reader_error_witness:
  "cfgPath (proc Map.empty ''/etc/app/local.yaml'' None (Inl ''yaml: unmarshal errors: line 1: cannot unmarshal !!seq into string''))
     = Inr ''/etc/app/local.yaml'' \<and>
   MustLoad_with read_as_stored
      (proc Map.empty ''/etc/app/local.yaml'' None (Inl ''yaml: unmarshal errors: line 1: cannot unmarshal !!seq into string''))
     = Exit 1 ''Cannot read config file: yaml: unmarshal errors: line 1: cannot unmarshal !!seq into string''"
proof -
  let ?e = "''yaml: unmarshal errors: line 1: cannot unmarshal !!seq into string''"
  let ?w = "proc Map.empty ''/etc/app/local.yaml'' None (Inl ?e)"
  let ?p = "''/etc/app/local.yaml''"
  have p: "cfgPath ?w = Inr ?p"
    by (simp add: cfgPath_def Getenv_def proc_def)
  have s: "\<not> IsNotExist (Stat ?w ?p)"
    by (simp add: proc_def IsNotExist_def)
  have r: "read_as_stored (environ ?w) ?p (file_at ?w ?p) = Inl ?e"
    by (simp add: proc_def read_as_stored_def)
  show ?thesis
    using MustLoad_reader_error [of ?w ?p read_as_stored ?e] p s r by simp
qed

subsection \<open>Determinism\<close>

text \<open>
  Claim C8. Two runs with the same environment variables, the same command line and
  the same file at the resolved path (whether \<open>os.Stat\<close> reports it missing, and its
  state for the reader) have the same outcome, whatever else differs on the disk.
\<close>

theorem MustLoad_deterministic:
  assumes "environ w1 = environ w2" and "flag_parse w1 = flag_parse w2"
    and "\<forall>p. cfgPath w1 = Inr p \<longrightarrow>
           IsNotExist (Stat w1 p) = IsNotExist (Stat w2 p) \<and> file_at w1 p = file_at w2 p"
  shows "MustLoad_with rc w1 = MustLoad_with rc w2"
proof -
  have same: "cfgPath w1 = cfgPath w2"
    using assms(1,2) by (simp add: cfgPath_def Getenv_def Let_def)
  show ?thesis
  proof (cases "cfgPath w1")
    case (Inl out)
    then show ?thesis using same by (simp add: MustLoad_with_def)
  next
    case (Inr p)
    then have "IsNotExist (Stat w1 p) = IsNotExist (Stat w2 p)" and "file_at w1 p = file_at w2 p"
      using assms(3) by simp_all
    then have "loadFile rc w1 p = loadFile rc w2 p"
      using assms(1) by (simp add: loadFile_def)
    then show ?thesis using Inr same by (simp add: MustLoad_with_def)
  qed
qed

text \<open>
  Two processes that differ in what \<open>os.Stat\<close> gives at every path, also at the
  resolved one (no error against a permission error), and load the same \<open>Config\<close>.
\<close>

theorem MustLoad_deterministic_witness:
  "Stat (proc [''CONFIG_PATH'' \<mapsto> ''/etc/app/local.yaml''] [] None (Inr cfg_dev)) ''/tmp/x'' \<noteq>
   Stat ((proc [''CONFIG_PATH'' \<mapsto> ''/etc/app/local.yaml''] [] None (Inr cfg_dev))\<lparr>Stat := \<lambda>p. Some ErrPermission\<rparr>) ''/tmp/x'' \<and>
   MustLoad_with read_as_stored (proc [''CONFIG_PATH'' \<mapsto> ''/etc/app/local.yaml''] [] None (Inr cfg_dev)) =
   MustLoad_with read_as_stored
     ((proc [''CONFIG_PATH'' \<mapsto> ''/etc/app/local.yaml''] [] None (Inr cfg_dev))\<lparr>Stat := \<lambda>p. Some ErrPermission\<rparr>)"
proof -
  let ?w1 = "proc [''CONFIG_PATH'' \<mapsto> ''/etc/app/local.yaml''] [] None (Inr cfg_dev)"
  let ?w2 = "?w1\<lparr>Stat := \<lambda>p. Some ErrPermission\<rparr>"
  have e: "environ ?w1 = environ ?w2" and f: "flag_parse ?w1 = flag_parse ?w2"
    by simp_all
  have a: "\<forall>p. cfgPath ?w1 = Inr p \<longrightarrow>
      IsNotExist (Stat ?w1 p) = IsNotExist (Stat ?w2 p) \<and> file_at ?w1 p = file_at ?w2 p"
    by (simp add: cfgPath_def Getenv_def proc_def IsNotExist_def)
  have d: "Stat ?w1 ''/tmp/x'' \<noteq> Stat ?w2 ''/tmp/x''"
    by (simp add: proc_def)
  show ?thesis
    using MustLoad_deterministic [OF e f a, of read_as_stored] d by simp
qed

subsection \<open>Other errors of \<open>os.Stat\<close>\<close>

text \<open>
  Claim C10. The process ends with "Config file does not exist: " and a path only when
  that path is the resolved one and \<open>os.Stat\<close> reports it missing. With any other
  result of \<open>os.Stat\<close> (no error, a permission error, any other error) the reader is
  called, and when it fails the process ends with "Cannot read config file: " and the
  reader's error.
\<close>

theorem MustLoad_stat_errors:
  "(MustLoad_with rc w = Exit c (''Config file does not exist: '' @ q) \<longrightarrow>
      cfgPath w = Inr q \<and> IsNotExist (Stat w q)) \<and>
   (cfgPath w = Inr p \<and> \<not> IsNotExist (Stat w p) \<longrightarrow>
      MustLoad_with rc w =
        (case rc (environ w) p (file_at w p) of
           Inl err \<Rightarrow> Exit 1 (''Cannot read config file: '' @ err)
         | Inr cfg \<Rightarrow> Returned cfg))"
proof (rule conjI; rule impI)
  assume ex: "MustLoad_with rc w = Exit c (''Config file does not exist: '' @ q)"
  show "cfgPath w = Inr q \<and> IsNotExist (Stat w q)"
  proof (cases "cfgPath w")
    case (Inl out)
    then show ?thesis
      using ex cfgPath_stopped [of w out] by (auto simp: MustLoad_with_def)
  next
    case (Inr p')
    show ?thesis
    proof (cases "IsNotExist (Stat w p')")
      case True
      then show ?thesis
        using ex Inr by (simp add: MustLoad_with_resolved loadFile_missing)
    next
      case False
      then show ?thesis
        using ex Inr by (simp add: MustLoad_with_resolved loadFile_present split: sum.splits)
    qed
  qed
next
  assume "cfgPath w = Inr p \<and> \<not> IsNotExist (Stat w p)"
  then show "MustLoad_with rc w =
      (case rc (environ w) p (file_at w p) of
         Inl err \<Rightarrow> Exit 1 (''Cannot read config file: '' @ err)
       | Inr cfg \<Rightarrow> Returned cfg)"
    by (simp add: MustLoad_with_resolved loadFile_present)
qed

theorem MustLoad_stat_errors_witness:
  "Stat (proc Map.empty ''/etc/app/local.yaml'' (Some ErrPermission)
           (Inl ''open /etc/app/local.yaml: permission denied'')) ''/etc/app/local.yaml''
     = Some ErrPermission \<and>
   MustLoad_with read_as_stored
      (proc Map.empty ''/etc/app/local.yaml'' (Some ErrPermission)
         (Inl ''open /etc/app/local.yaml: permission denied''))
     = Exit 1 ''Cannot read config file: open /etc/app/local.yaml: permission denied'' \<and>
   MustLoad_with read_as_stored
      (proc Map.empty ''/etc/app/local.yaml'' (Some ErrNotExist)
         (Inl ''open /etc/app/local.yaml: no such file or directory''))
     = Exit 1 ''Config file does not exist: /etc/app/local.yaml'' \<and>
   IsNotExist (Stat (proc Map.empty ''/etc/app/local.yaml'' (Some ErrNotExist)
      (Inl ''open /etc/app/local.yaml: no such file or directory'')) ''/etc/app/local.yaml'')"
proof -
  let ?p = "''/etc/app/local.yaml''"
  let ?den = "proc Map.empty ?p (Some ErrPermission) (Inl ''open /etc/app/local.yaml: permission denied'')"
  let ?gone = "proc Map.empty ?p (Some ErrNotExist) (Inl ''open /etc/app/local.yaml: no such file or directory'')"
  have den: "cfgPath ?den = Inr ?p \<and> \<not> IsNotExist (Stat ?den ?p)"
    by (simp add: cfgPath_def Getenv_def proc_def IsNotExist_def)
  have st: "Stat ?den ?p = Some ErrPermission"
    by (simp add: proc_def)
  have rd: "read_as_stored (environ ?den) ?p (file_at ?den ?p) =
      Inl ''open /etc/app/local.yaml: permission denied''"
    by (simp add: proc_def read_as_stored_def)
  have 1: "MustLoad_with read_as_stored ?den =
      Exit 1 ''Cannot read config file: open /etc/app/local.yaml: permission denied''"
    using MustLoad_stat_errors [of read_as_stored ?den _ _ ?p] den rd by simp
  have 2: "MustLoad_with read_as_stored ?gone = Exit 1 (''Config file does not exist: '' @ ?p)"
    by (simp add: MustLoad_with_def cfgPath_def Getenv_def proc_def loadFile_def IsNotExist_def
        log_Fatal_def)
  have 3: "IsNotExist (Stat ?gone ?p)"
    using MustLoad_stat_errors [of read_as_stored ?gone 1 ?p] 2 by blast
  show ?thesis using st 1 2 3 by simp
qed

section \<open>Properties that rest on the reader\<close>

subsection \<open>Steps of the reader\<close>

lemma validate_Inr: "validate c = Inr c' \<Longrightarrow> c' = c \<and> Env c \<noteq> [] \<and> StoragePath c \<noteq> []"
  by (auto simp: validate_def split: if_splits)

lemma ReadConfig_Inr:
  "ReadConfig e p f = Inr cfg \<Longrightarrow>
     \<exists>d. f = Document d \<and> cfg = override_env e (populate d) \<and>
         Env cfg \<noteq> [] \<and> StoragePath cfg \<noteq> []"
  by (cases f) (auto simp: ReadConfig_def dest: validate_Inr)

lemma MustLoad_Returned:
  "MustLoad w = Returned cfg \<Longrightarrow>
     \<exists>p. cfgPath w = Inr p \<and> \<not> IsNotExist (Stat w p) \<and>
         ReadConfig (environ w) p (file_at w p) = Inr cfg"
proof (cases "cfgPath w")
  case (Inl out)
  assume "MustLoad w = Returned cfg"
  then show ?thesis
    using Inl cfgPath_stopped [of w out] by (auto simp: MustLoad_def MustLoad_with_def)
next
  case (Inr p)
  assume r: "MustLoad w = Returned cfg"
  show ?thesis
  proof (cases "IsNotExist (Stat w p)")
    case True
    then show ?thesis
      using r Inr by (simp add: MustLoad_def MustLoad_with_resolved loadFile_missing)
  next
    case False
    then show ?thesis
      using r Inr
      by (simp add: MustLoad_def MustLoad_with_resolved loadFile_present split: sum.splits)
  qed
qed

lemma MustLoad_Document:
  "cfgPath w = Inr p \<Longrightarrow> \<not> IsNotExist (Stat w p) \<Longrightarrow> file_at w p = Document d \<Longrightarrow>
     MustLoad w =
       (case validate (override_env (environ w) (populate d)) of
          Inl err \<Rightarrow> Exit 1 (''Cannot read config file: '' @ err)
        | Inr cfg \<Rightarrow> Returned cfg)"
  by (simp add: MustLoad_def MustLoad_with_resolved loadFile_present ReadConfig_def)

subsection \<open>Required fields\<close>

text \<open>
  Claim C2. A \<open>Config\<close> that \<open>MustLoad\<close> returns has \<open>Env\<close> and \<open>StoragePath\<close> not
  empty. Conversely, when the file at the resolved path is a document and \<open>Env\<close> or
  \<open>StoragePath\<close> is empty after the keys are mapped and \<open>ENV\<close> is applied, the
  process ends with a message that names the missing field (the first one in the order
  of declaration) and returns nothing.
\<close>

theorem MustLoad_required_fields:
  "(MustLoad w = Returned cfg \<longrightarrow> Env cfg \<noteq> [] \<and> StoragePath cfg \<noteq> []) \<and>
   (cfgPath w = Inr p \<and> \<not> IsNotExist (Stat w p) \<and> file_at w p = Document d \<longrightarrow>
      (Env (override_env (environ w) (populate d)) = [] \<longrightarrow>
         MustLoad w = Exit 1 (''Cannot read config file: '' @ required_missing ''Env'')) \<and>
      (Env (override_env (environ w) (populate d)) \<noteq> [] \<and>
       StoragePath (override_env (environ w) (populate d)) = [] \<longrightarrow>
         MustLoad w = Exit 1 (''Cannot read config file: '' @ required_missing ''StoragePath'')))"
proof (rule conjI; rule impI)
  assume "MustLoad w = Returned cfg"
  then obtain p' where "ReadConfig (environ w) p' (file_at w p') = Inr cfg"
    using MustLoad_Returned by blast
  then show "Env cfg \<noteq> [] \<and> StoragePath cfg \<noteq> []"
    using ReadConfig_Inr by blast
next
  assume "cfgPath w = Inr p \<and> \<not> IsNotExist (Stat w p) \<and> file_at w p = Document d"
  then have m: "MustLoad w =
      (case validate (override_env (environ w) (populate d)) of
         Inl err \<Rightarrow> Exit 1 (''Cannot read config file: '' @ err)
       | Inr cfg \<Rightarrow> Returned cfg)"
    by (simp add: MustLoad_Document)
  show "(Env (override_env (environ w) (populate d)) = [] \<longrightarrow>
         MustLoad w = Exit 1 (''Cannot read config file: '' @ required_missing ''Env'')) \<and>
      (Env (override_env (environ w) (populate d)) \<noteq> [] \<and>
       StoragePath (override_env (environ w) (populate d)) = [] \<longrightarrow>
         MustLoad w = Exit 1 (''Cannot read config file: '' @ required_missing ''StoragePath''))"
    by (simp add: m validate_def)
qed

text \<open>A file with both keys, one without \<open>env\<close>, one without \<open>storage_path\<close>.\<close>

theorem MustLoad_required_fields_witness:
  "MustLoad (proc_yaml [''CONFIG_PATH'' \<mapsto> ''/etc/app/prod.yaml''] (Document doc_prod))
     = Returned \<lparr>Env = ''prod'', StoragePath = ''/data'', HttpServer = \<lparr>Addr = []\<rparr>\<rparr> \<and>
   MustLoad (proc_yaml [''CONFIG_PATH'' \<mapsto> ''/etc/app/prod.yaml'']
       (Document (doc_prod\<lparr>yaml_env := None\<rparr>)))
     = Exit 1 ''Cannot read config file: required field missing: Env'' \<and>
   MustLoad (proc_yaml [''CONFIG_PATH'' \<mapsto> ''/etc/app/prod.yaml'']
       (Document (doc_prod\<lparr>yaml_storage_path := None\<rparr>)))
     = Exit 1 ''Cannot read config file: required field missing: StoragePath''"
proof -
  let ?e = "[''CONFIG_PATH'' \<mapsto> ''/etc/app/prod.yaml'']"
  let ?p = "''/etc/app/prod.yaml''"
  let ?ok = "proc_yaml ?e (Document doc_prod)"
  let ?noenv = "proc_yaml ?e (Document (doc_prod\<lparr>yaml_env := None\<rparr>))"
  let ?nosp = "proc_yaml ?e (Document (doc_prod\<lparr>yaml_storage_path := None\<rparr>))"
  let ?cfg = "\<lparr>Env = ''prod'', StoragePath = ''/data'', HttpServer = \<lparr>Addr = []\<rparr>\<rparr>"
  have ok: "MustLoad ?ok = Returned ?cfg"
    by (simp add: MustLoad_def MustLoad_with_def cfgPath_def Getenv_def proc_yaml_def loadFile_def
        IsNotExist_def ReadConfig_def validate_def override_env_def populate_def doc_prod_def)
  have 1: "Env ?cfg \<noteq> [] \<and> StoragePath ?cfg \<noteq> []"
    using MustLoad_required_fields [of ?ok ?cfg] ok by blast
  have p2: "cfgPath ?noenv = Inr ?p \<and> \<not> IsNotExist (Stat ?noenv ?p) \<and>
      file_at ?noenv ?p = Document (doc_prod\<lparr>yaml_env := None\<rparr>)"
    by (simp add: cfgPath_def Getenv_def proc_yaml_def IsNotExist_def)
  have e2: "Env (override_env (environ ?noenv) (populate (doc_prod\<lparr>yaml_env := None\<rparr>))) = []"
    by (simp add: proc_yaml_def override_env_def populate_def doc_prod_def)
  have 2: "MustLoad ?noenv = Exit 1 (''Cannot read config file: '' @ required_missing ''Env'')"
    using MustLoad_required_fields [of ?noenv _ ?p "doc_prod\<lparr>yaml_env := None\<rparr>"] p2 e2 by blast
  have p3: "cfgPath ?nosp = Inr ?p \<and> \<not> IsNotExist (Stat ?nosp ?p) \<and>
      file_at ?nosp ?p = Document (doc_prod\<lparr>yaml_storage_path := None\<rparr>)"
    by (simp add: cfgPath_def Getenv_def proc_yaml_def IsNotExist_def)
  have e3: "Env (override_env (environ ?nosp) (populate (doc_prod\<lparr>yaml_storage_path := None\<rparr>))) \<noteq> [] \<and>
      StoragePath (override_env (environ ?nosp) (populate (doc_prod\<lparr>yaml_storage_path := None\<rparr>))) = []"
    by (simp add: proc_yaml_def override_env_def populate_def doc_prod_def)
  have 3: "MustLoad ?nosp = Exit 1 (''Cannot read config file: '' @ required_missing ''StoragePath'')"
    using MustLoad_required_fields [of ?nosp _ ?p "doc_prod\<lparr>yaml_storage_path := None\<rparr>"] p3 e3
    by blast
  show ?thesis using ok 1 2 3 by (simp add: required_missing_def)
qed

subsection \<open>The override by \<open>ENV\<close>\<close>

text \<open>
  Claim C3. When the file at the resolved path has \<open>env: prod\<close> and the variable
  \<open>ENV\<close> is set to "staging", a \<open>Config\<close> that \<open>MustLoad\<close> returns has \<open>Env\<close>
  equal to "staging": the variable wins over the file.
\<close>

theorem MustLoad_ENV_overrides:
  assumes "cfgPath w = Inr p" and "file_at w p = Document d" and "yaml_env d = Some ''prod''"
    and "environ w ''ENV'' = Some ''staging''" and "MustLoad w = Returned cfg"
  shows "Env cfg = ''staging''"
proof -
  obtain p' where p': "cfgPath w = Inr p'"
    and r: "ReadConfig (environ w) p' (file_at w p') = Inr cfg"
    using assms(5) MustLoad_Returned by blast
  obtain d' where "cfg = override_env (environ w) (populate d')"
    using r ReadConfig_Inr by blast
  then show ?thesis
    using assms(4) by (simp add: override_env_def)
qed

theorem MustLoad_ENV_overrides_witness:
  "cfgPath (proc_yaml [''CONFIG_PATH'' \<mapsto> ''/etc/app/prod.yaml'', ''ENV'' \<mapsto> ''staging'']
       (Document doc_prod)) = Inr ''/etc/app/prod.yaml'' \<and>
   yaml_env doc_prod = Some ''prod'' \<and>
   MustLoad (proc_yaml [''CONFIG_PATH'' \<mapsto> ''/etc/app/prod.yaml'', ''ENV'' \<mapsto> ''staging'']
       (Document doc_prod))
     = Returned \<lparr>Env = ''staging'', StoragePath = ''/data'', HttpServer = \<lparr>Addr = []\<rparr>\<rparr> \<and>
   Env \<lparr>Env = ''staging'', StoragePath = ''/data'', HttpServer = \<lparr>Addr = []\<rparr>\<rparr> = ''staging''"
proof -
  let ?w = "proc_yaml [''CONFIG_PATH'' \<mapsto> ''/etc/app/prod.yaml'', ''ENV'' \<mapsto> ''staging''] (Document doc_prod)"
  let ?p = "''/etc/app/prod.yaml''"
  let ?cfg = "\<lparr>Env = ''staging'', StoragePath = ''/data'', HttpServer = \<lparr>Addr = []\<rparr>\<rparr>"
  have p: "cfgPath ?w = Inr ?p"
    by (simp add: cfgPath_def Getenv_def proc_yaml_def)
  have f: "file_at ?w ?p = Document doc_prod"
    by (simp add: proc_yaml_def)
  have y: "yaml_env doc_prod = Some ''prod''"
    by (simp add: doc_prod_def)
  have e: "environ ?w ''ENV'' = Some ''staging''"
    by (simp add: proc_yaml_def)
  have m: "MustLoad ?w = Returned ?cfg"
    by (simp add: MustLoad_def MustLoad_with_def cfgPath_def Getenv_def proc_yaml_def loadFile_def
        IsNotExist_def ReadConfig_def validate_def override_env_def populate_def doc_prod_def)
  show ?thesis
    using MustLoad_ENV_overrides [OF p f y e m] p y m by simp
qed

subsection \<open>Loading a valid file\<close>

text \<open>
  Claim C7 as stated: with \<open>CONFIG_PATH\<close> naming an existing file that has
  \<open>env: prod\<close> and \<open>storage_path: /data\<close>, the loader returns \<open>Env\<close> "prod" and
  \<open>StoragePath\<close> "/data". It fails when \<open>ENV\<close> is set to another value: in the
  process below every condition of the claim holds, and \<open>MustLoad\<close> returns \<open>Env\<close>
  "staging".
\<close>

theorem MustLoad_valid_file_counterexample:
  "Getenv (proc_yaml [''CONFIG_PATH'' \<mapsto> ''/path/to/valid.yaml'', ''ENV'' \<mapsto> ''staging'']
       (Document doc_prod)) ''CONFIG_PATH'' = ''/path/to/valid.yaml'' \<and>
   Stat (proc_yaml [''CONFIG_PATH'' \<mapsto> ''/path/to/valid.yaml'', ''ENV'' \<mapsto> ''staging'']
       (Document doc_prod)) ''/path/to/valid.yaml'' = None \<and>
   file_at (proc_yaml [''CONFIG_PATH'' \<mapsto> ''/path/to/valid.yaml'', ''ENV'' \<mapsto> ''staging'']
       (Document doc_prod)) ''/path/to/valid.yaml''
     = Document \<lparr>yaml_env = Some ''prod'', yaml_storage_path = Some ''/data'', yaml_addr = None\<rparr> \<and>
   MustLoad (proc_yaml [''CONFIG_PATH'' \<mapsto> ''/path/to/valid.yaml'', ''ENV'' \<mapsto> ''staging'']
       (Document doc_prod))
     = Returned \<lparr>Env = ''staging'', StoragePath = ''/data'', HttpServer = \<lparr>Addr = []\<rparr>\<rparr> \<and>
   Env \<lparr>Env = ''staging'', StoragePath = ''/data'', HttpServer = \<lparr>Addr = []\<rparr>\<rparr> \<noteq> ''prod''"
  by (simp add: MustLoad_def MustLoad_with_def cfgPath_def Getenv_def proc_yaml_def loadFile_def
      IsNotExist_def ReadConfig_def validate_def override_env_def populate_def doc_prod_def)

text \<open>
  Claim C7, amended: with \<open>CONFIG_PATH\<close> set to the path (not empty) of an existing
  file that has \<open>env: prod\<close> and \<open>storage_path: /data\<close>, and with \<open>ENV\<close> not set or
  set to "prod", \<open>MustLoad\<close> returns a \<open>Config\<close> with \<open>Env\<close> "prod" and
  \<open>StoragePath\<close> "/data".
\<close>

theorem MustLoad_valid_file:
  assumes "environ w ''CONFIG_PATH'' = Some p" and "p \<noteq> []" and "\<not> IsNotExist (Stat w p)"
    and "file_at w p = Document d"
    and "yaml_env d = Some ''prod''" and "yaml_storage_path d = Some ''/data''"
    and "environ w ''ENV'' = None \<or> environ w ''ENV'' = Some ''prod''"
  shows "\<exists>cfg. MustLoad w = Returned cfg \<and> Env cfg = ''prod'' \<and> StoragePath cfg = ''/data''"
proof -
  have p: "cfgPath w = Inr p"
    using assms(1,2) by (simp add: cfgPath_def Getenv_def)
  have c: "override_env (environ w) (populate d) = populate d"
    using assms(5,7) by (auto simp: override_env_def populate_def)
  have v: "validate (populate d) = Inr (populate d)"
    using assms(5,6) by (simp add: validate_def populate_def)
  have "MustLoad w = Returned (populate d)"
    using MustLoad_Document [OF p assms(3,4)] by (simp add: c v)
  moreover have "Env (populate d) = ''prod'' \<and> StoragePath (populate d) = ''/data''"
    using assms(5,6) by (simp add: populate_def)
  ultimately show ?thesis by blast
qed

theorem MustLoad_valid_file_witness:
  "environ (proc_yaml [''CONFIG_PATH'' \<mapsto> ''/path/to/valid.yaml''] (Document doc_prod)) ''ENV'' = None \<and>
   (\<exists>cfg. MustLoad (proc_yaml [''CONFIG_PATH'' \<mapsto> ''/path/to/valid.yaml''] (Document doc_prod))
       = Returned cfg \<and> Env cfg = ''prod'' \<and> StoragePath cfg = ''/data'') \<and>
   (\<exists>cfg. MustLoad (proc_yaml [''CONFIG_PATH'' \<mapsto> ''/path/to/valid.yaml'', ''ENV'' \<mapsto> ''prod'']
       (Document doc_prod))
       = Returned cfg \<and> Env cfg = ''prod'' \<and> StoragePath cfg = ''/data'')"
proof -
  let ?p = "''/path/to/valid.yaml''"
  let ?w = "proc_yaml [''CONFIG_PATH'' \<mapsto> ?p] (Document doc_prod)"
  let ?w' = "proc_yaml [''CONFIG_PATH'' \<mapsto> ?p, ''ENV'' \<mapsto> ''prod''] (Document doc_prod)"
  have y: "yaml_env doc_prod = Some ''prod''" "yaml_storage_path doc_prod = Some ''/data''"
    by (simp_all add: doc_prod_def)
  have ne: "?p \<noteq> []" by simp
  have 1: "environ ?w ''CONFIG_PATH'' = Some ?p" "\<not> IsNotExist (Stat ?w ?p)"
    "file_at ?w ?p = Document doc_prod"
    by (simp_all add: proc_yaml_def IsNotExist_def)
  have u: "environ ?w ''ENV'' = None"
    by (simp add: proc_yaml_def)
  have 2: "environ ?w' ''CONFIG_PATH'' = Some ?p" "\<not> IsNotExist (Stat ?w' ?p)"
    "file_at ?w' ?p = Document doc_prod"
    by (simp_all add: proc_yaml_def IsNotExist_def)
  have u': "environ ?w' ''ENV'' = Some ''prod''"
    by (simp add: proc_yaml_def)
  show ?thesis
    using MustLoad_valid_file [OF 1(1) ne 1(2,3) y disjI1 [OF u]]
      MustLoad_valid_file [OF 2(1) ne 2(2,3) y disjI2 [OF u']] u
    by simp
qed

subsection \<open>What the environment can change\<close>

text \<open>
  Claim C9. The override step leaves \<open>StoragePath\<close> and \<open>HttpServer\<close> as they are,
  whatever the environment holds, and changes nothing at all when \<open>ENV\<close> is not set.
  In a \<open>Config\<close> that \<open>MustLoad\<close> returns, \<open>StoragePath\<close> and \<open>HttpServer.Addr\<close> are
  the values of the keys \<open>storage_path\<close> and \<open>http_server.addr\<close> of the file at the
  resolved path (the empty string for a key the file does not give).
\<close>

theorem override_env_frame:
  "StoragePath (override_env e c) = StoragePath c \<and>
   HttpServer (override_env e c) = HttpServer c \<and>
   (e ''ENV'' = None \<longrightarrow> override_env e c = c) \<and>
   (cfgPath w = Inr p \<and> MustLoad w = Returned cfg \<longrightarrow>
      (\<exists>d. file_at w p = Document d \<and>
           StoragePath cfg = (case yaml_storage_path d of None \<Rightarrow> [] | Some v \<Rightarrow> v) \<and>
           Addr (HttpServer cfg) = (case yaml_addr d of None \<Rightarrow> [] | Some v \<Rightarrow> v)))"
proof (intro conjI impI)
  show "StoragePath (override_env e c) = StoragePath c"
    by (simp add: override_env_def split: option.splits)
  show "HttpServer (override_env e c) = HttpServer c"
    by (simp add: override_env_def split: option.splits)
next
  assume "e ''ENV'' = None"
  then show "override_env e c = c"
    by (simp add: override_env_def)
next
  assume a: "cfgPath w = Inr p \<and> MustLoad w = Returned cfg"
  then obtain p' where p': "cfgPath w = Inr p'"
    and r: "ReadConfig (environ w) p' (file_at w p') = Inr cfg"
    using MustLoad_Returned by blast
  have eq: "p' = p" using a p' by simp
  obtain d where d: "file_at w p = Document d" and c: "cfg = override_env (environ w) (populate d)"
    using r ReadConfig_Inr eq by blast
  have "StoragePath cfg = StoragePath (populate d)" and "HttpServer cfg = HttpServer (populate d)"
    by (simp_all add: c override_env_def split: option.splits)
  then show "\<exists>d. file_at w p = Document d \<and>
      StoragePath cfg = (case yaml_storage_path d of None \<Rightarrow> [] | Some v \<Rightarrow> v) \<and>
      Addr (HttpServer cfg) = (case yaml_addr d of None \<Rightarrow> [] | Some v \<Rightarrow> v)"
    using d by (simp add: populate_def)
qed

text \<open>
  An environment that sets \<open>STORAGE_PATH\<close> and \<open>ADDR\<close> beside \<open>ENV\<close>: only \<open>Env\<close>
  changes.
\<close>

theorem override_env_frame_witness:
  "override_env [''CONFIG_PATH'' \<mapsto> ''/etc/app/prod.yaml''] cfg_dev = cfg_dev \<and>
   override_env [''ENV'' \<mapsto> ''staging'', ''STORAGE_PATH'' \<mapsto> ''/elsewhere'', ''ADDR'' \<mapsto> '':80''] cfg_dev
     = cfg_dev\<lparr>Env := ''staging''\<rparr> \<and>
   MustLoad (proc_yaml [''CONFIG_PATH'' \<mapsto> ''/etc/app/prod.yaml'', ''ENV'' \<mapsto> ''staging'',
        ''STORAGE_PATH'' \<mapsto> ''/elsewhere''] (Document doc_prod))
     = Returned \<lparr>Env = ''staging'', StoragePath = ''/data'', HttpServer = \<lparr>Addr = []\<rparr>\<rparr> \<and>
   (\<exists>d. file_at (proc_yaml [''CONFIG_PATH'' \<mapsto> ''/etc/app/prod.yaml'', ''ENV'' \<mapsto> ''staging'',
           ''STORAGE_PATH'' \<mapsto> ''/elsewhere''] (Document doc_prod)) ''/etc/app/prod.yaml''
         = Document d \<and>
        yaml_storage_path d = Some ''/data'' \<and> yaml_addr d = None)"
proof -
  let ?e1 = "[''CONFIG_PATH'' \<mapsto> ''/etc/app/prod.yaml'']"
  let ?e2 = "[''ENV'' \<mapsto> ''staging'', ''STORAGE_PATH'' \<mapsto> ''/elsewhere'', ''ADDR'' \<mapsto> '':80'']"
  let ?w = "proc_yaml [''CONFIG_PATH'' \<mapsto> ''/etc/app/prod.yaml'', ''ENV'' \<mapsto> ''staging'',
        ''STORAGE_PATH'' \<mapsto> ''/elsewhere''] (Document doc_prod)"
  let ?cfg = "\<lparr>Env = ''staging'', StoragePath = ''/data'', HttpServer = \<lparr>Addr = []\<rparr>\<rparr>"
  have u: "?e1 ''ENV'' = None" by simp
  have 1: "override_env ?e1 cfg_dev = cfg_dev"
    using override_env_frame [of ?e1 cfg_dev] u by blast
  have 2: "override_env ?e2 cfg_dev = cfg_dev\<lparr>Env := ''staging''\<rparr>"
    by (simp add: override_env_def)
  have p: "cfgPath ?w = Inr ''/etc/app/prod.yaml''"
    by (simp add: cfgPath_def Getenv_def proc_yaml_def)
  have m: "MustLoad ?w = Returned ?cfg"
    by (simp add: MustLoad_def MustLoad_with_def cfgPath_def Getenv_def proc_yaml_def loadFile_def
        IsNotExist_def ReadConfig_def validate_def override_env_def populate_def doc_prod_def)
  have "\<exists>d. file_at ?w ''/etc/app/prod.yaml'' = Document d \<and>
      StoragePath ?cfg = (case yaml_storage_path d of None \<Rightarrow> [] | Some v \<Rightarrow> v) \<and>
      Addr (HttpServer ?cfg) = (case yaml_addr d of None \<Rightarrow> [] | Some v \<Rightarrow> v)"
    using override_env_frame [of _ _ ?w "''/etc/app/prod.yaml''" ?cfg] p m by blast
  then have 3: "\<exists>d. file_at ?w ''/etc/app/prod.yaml'' = Document d \<and>
      yaml_storage_path d = Some ''/data'' \<and> yaml_addr d = None"
    by (simp add: proc_yaml_def doc_prod_def)
  show ?thesis using 1 2 m 3 by simp
qed

end
